theory Spec2Isabelle
  imports Complex_Main
begin

section \<open>Robot path visualisation: the telemetry loader and the derived quantities\<close>

text \<open>
  The program (\<^verbatim>\<open>src/robot_code/main.py\<close>) reads a telemetry log with
  \<^verbatim>\<open>csv.DictReader\<close> into six numpy arrays and derives from them what its plots
  show: the arrows of the path panels, the dark points of the thresholded panel and
  the path statistics.

  Conventions of the embedding.
  \<^item> A Python exception is a value of \<open>error\<close>; a function that can raise returns
    \<open>error + 'a\<close>, with \<open>Inl\<close> for the exception.
  \<^item> A numpy array of floats is a \<open>real list\<close>, an array of Python integers an
    \<open>int list\<close>. The finite float64 values are read as the reals they denote. The
    elementwise operations (difference, square, square root, quotient, the conversion
    of the heading) are taken exact. The sum \<^verbatim>\<open>np.sum\<close> is not: it adds in an
    order the array fixes and rounds every addition to float64, and the result depends
    on that order. A quotient by zero, which numpy answers with \<^verbatim>\<open>inf\<close> or
    \<^verbatim>\<open>nan\<close>, has a value of its own (\<open>float64\<close>); overflow and subnormal numbers
    are outside the model.
  \<^item> The calls into matplotlib draw what they are given and are not modelled; the
    values the source computes for them are.
\<close>

subsection \<open>Exceptions\<close>

datatype error =
    FileNotFoundError
  | NotADirectoryError
  | IsADirectoryError
  | PermissionError
  | OSError
  | KeyError string
  | ValueError
  | TypeError
  | IndexError
  | EOFError

definition bind_err :: "error + 'a \<Rightarrow> ('a \<Rightarrow> error + 'b) \<Rightarrow> error + 'b" where
  "bind_err m f = (case m of Inl e \<Rightarrow> Inl e | Inr v \<Rightarrow> f v)"

subsection \<open>The telemetry series\<close>

text \<open>
  The dictionary \<^verbatim>\<open>read_path_data\<close> returns, with keys \<^verbatim>\<open>'time'\<close>, \<^verbatim>\<open>'x'\<close>,
  \<^verbatim>\<open>'y'\<close>, \<^verbatim>\<open>'theta'\<close>, \<^verbatim>\<open>'light'\<close> and \<^verbatim>\<open>'distance'\<close>. The fields carry the
  names of the lists the loader fills.
\<close>

record telemetry =
  time_data :: "real list"
  x_data :: "real list"
  y_data :: "real list"
  theta_data :: "real list"
  light_data :: "int list"
  distance_data :: "int list"

subsection \<open>The numpy operations the source uses\<close>

text \<open>\<^verbatim>\<open>a[0]\<close> and \<^verbatim>\<open>a[-1]\<close>: an empty array raises \<^verbatim>\<open>IndexError\<close>.\<close>

definition index_first :: "'a list \<Rightarrow> error + 'a" where
  "index_first xs = (case xs of [] \<Rightarrow> Inl IndexError | v # _ \<Rightarrow> Inr v)"

definition index_last :: "'a list \<Rightarrow> error + 'a" where
  "index_last xs = (if xs = [] then Inl IndexError else Inr (last xs))"

text \<open>\<^verbatim>\<open>a[i]\<close> for an index \<open>i \<ge> 0\<close>.\<close>

definition index_at :: "'a list \<Rightarrow> nat \<Rightarrow> error + 'a" where
  "index_at xs i = (if i < length xs then Inr (xs ! i) else Inl IndexError)"

text \<open>\<^verbatim>\<open>np.diff(a)\<close> is \<^verbatim>\<open>a[1:] - a[:-1]\<close>; it is empty for fewer than two elements.\<close>

definition np_diff :: "real list \<Rightarrow> real list" where
  "np_diff xs = map (\<lambda>(a, b). b - a) (zip xs (tl xs))"

text \<open>
  \<^verbatim>\<open>a + b\<close> on one-dimensional arrays: elementwise for equal lengths, an array of
  length one is broadcast, any other pair of lengths raises \<^verbatim>\<open>ValueError\<close>.
\<close>

definition np_add :: "real list \<Rightarrow> real list \<Rightarrow> error + real list" where
  "np_add xs ys =
     (if length xs = length ys then Inr (map (\<lambda>(a, b). a + b) (zip xs ys))
      else if length xs = 1 then Inr (map (\<lambda>b. hd xs + b) ys)
      else if length ys = 1 then Inr (map (\<lambda>a. a + hd ys) xs)
      else Inl ValueError)"

text \<open>
  \<^verbatim>\<open>a[mask]\<close> with a boolean array: the elements where the mask is true, in order;
  a mask of another length raises \<^verbatim>\<open>IndexError\<close>.
\<close>

definition np_mask :: "'a list \<Rightarrow> bool list \<Rightarrow> error + 'a list" where
  "np_mask xs keep =
     (if length keep = length xs then Inr (map fst (filter snd (zip xs keep)))
      else Inl IndexError)"

definition deg2rad :: "real \<Rightarrow> real" where
  "deg2rad d = d * (pi / 180)"

subsection \<open>Rounding to float64 and \<^verbatim>\<open>np.sum\<close>\<close>

text \<open>
  The integer nearest to a real, the even one when two are equally near.
\<close>

definition round_half_even :: "real \<Rightarrow> int" where
  "round_half_even q =
     (let f = \<lfloor>q\<rfloor>; r = q - of_int f
      in if r < 1 / 2 then f else if 1 / 2 < r then f + 1 else if even f then f else f + 1)"

text \<open>
  The float64 nearest to a real (53 significant bits, ties to the even significand):
  for \<open>2\<^sup>e \<le> \<bar>v\<bar> < 2\<^sup>e\<^sup>+\<^sup>1\<close> the float64 values around \<open>v\<close> are the multiples of
  \<open>2\<^sup>e\<^sup>-\<^sup>5\<^sup>2\<close>.
\<close>

definition round64 :: "real \<Rightarrow> real" where
  "round64 v =
     (if v = 0 then 0
      else let u = 2 powr of_int (\<lfloor>log 2 \<bar>v\<bar>\<rfloor> - 52)
           in of_int (round_half_even (v / u)) * u)"

definition add64 :: "real \<Rightarrow> real \<Rightarrow> real" where
  "add64 a b = round64 (a + b)"

text \<open>
  \<^verbatim>\<open>np.sum\<close> of a one-dimensional float64 array is numpy's pairwise summation,
  added to the initial value 0. Fewer than 8 elements are added one after the other;
  up to 128 elements are added into 8 accumulators (element \<open>i\<close> into accumulator
  \<open>i mod 8\<close>, block by block), the accumulators are added pairwise and the elements
  after the last full block one after the other; a longer array is split in two near
  its middle, at a multiple of 8.
\<close>

definition sum_loop :: "real \<Rightarrow> real list \<Rightarrow> real" where
  "sum_loop res vs = foldl add64 res vs"

function accumulate8 :: "real list \<Rightarrow> real list \<Rightarrow> real list \<times> real list" where
  "accumulate8 r vs =
     (if length vs < 8 then (r, vs)
      else accumulate8 (map (\<lambda>(a, b). add64 a b) (zip r (take 8 vs))) (drop 8 vs))"
  by pat_completeness auto
termination
  by (relation "measure (\<lambda>(r, vs). length vs)") auto

declare accumulate8.simps [simp del]

definition block_sum :: "real list \<Rightarrow> real" where
  "block_sum vs =
     (case accumulate8 (take 8 vs) (drop 8 vs) of
        (r, rest) \<Rightarrow>
          sum_loop
            (add64 (add64 (add64 (r ! 0) (r ! 1)) (add64 (r ! 2) (r ! 3)))
                   (add64 (add64 (r ! 4) (r ! 5)) (add64 (r ! 6) (r ! 7))))
            rest)"

function pairwise_sum :: "real list \<Rightarrow> real" where
  "pairwise_sum vs =
     (if length vs < 8 then sum_loop 0 vs
      else if length vs \<le> 128 then block_sum vs
      else let n2 = length vs div 2 - length vs div 2 mod 8
           in add64 (pairwise_sum (take n2 vs)) (pairwise_sum (drop n2 vs)))"
  by pat_completeness auto
termination
proof (relation "measure length")
  show "wf (measure length)" by simp
next
  fix vs :: "real list" and n2 :: nat
  assume "\<not> length vs \<le> 128" and n2: "n2 = length vs div 2 - length vs div 2 mod 8"
  then have "n2 < length vs" by arith
  then show "(take n2 vs, vs) \<in> measure length" by simp
next
  fix vs :: "real list" and n2 :: nat
  assume "\<not> length vs \<le> 128" and n2: "n2 = length vs div 2 - length vs div 2 mod 8"
  then have "0 < n2" and "n2 < length vs" by arith+
  then show "(drop n2 vs, vs) \<in> measure length" by simp
qed

declare pairwise_sum.simps [simp del]

definition np_sum :: "real list \<Rightarrow> real" where
  "np_sum vs = add64 0 (pairwise_sum vs)"

subsection \<open>The quotient of two float64 scalars\<close>

text \<open>
  \<^verbatim>\<open>a / b\<close> on numpy's float64 scalars raises nothing: a zero divisor gives
  \<^verbatim>\<open>inf\<close>, \<^verbatim>\<open>-inf\<close> or \<^verbatim>\<open>nan\<close> (and a warning).
\<close>

datatype float64 = Finite real | Pos_Inf | Neg_Inf | Not_A_Number

definition np_divide :: "real \<Rightarrow> real \<Rightarrow> float64" where
  "np_divide a b =
     (if b \<noteq> 0 then Finite (a / b)
      else if 0 < a then Pos_Inf else if a < 0 then Neg_Inf else Not_A_Number)"

subsection \<open>Path statistics (\<^verbatim>\<open>plot_robot_path\<close>, lines 124 to 129)\<close>

text \<open>
  \<^verbatim>\<open>dx = np.diff(data['x']); dy = np.diff(data['y'])\<close>,
  \<^verbatim>\<open>distances = np.sqrt(dx ** 2 + dy ** 2)\<close>.
\<close>

definition distances :: "telemetry \<Rightarrow> error + real list" where
  "distances data =
     (let dx = np_diff (x_data data);
          dy = np_diff (y_data data)
      in bind_err (np_add (map (\<lambda>v. v ^ 2) dx) (map (\<lambda>v. v ^ 2) dy))
           (\<lambda>sq. Inr (map sqrt sq)))"

text \<open>\<^verbatim>\<open>total_distance = np.sum(distances)\<close>.\<close>

definition total_distance :: "telemetry \<Rightarrow> error + real" where
  "total_distance data = bind_err (distances data) (\<lambda>ds. Inr (np_sum ds))"

text \<open>\<^verbatim>\<open>total_time = (data['time'][-1] - data['time'][0]) / 1000.0\<close>.\<close>

definition total_time :: "telemetry \<Rightarrow> error + real" where
  "total_time data =
     bind_err (index_last (time_data data)) (\<lambda>t_last.
     bind_err (index_first (time_data data)) (\<lambda>t_first.
     Inr ((t_last - t_first) / 1000)))"

text \<open>
  \<^verbatim>\<open>avg_speed = total_distance / total_time if total_time > 0 else 0\<close>, after the
  two statements above, in their order: the quotient is taken only under the guard.
\<close>

definition avg_speed :: "telemetry \<Rightarrow> error + float64" where
  "avg_speed data =
     bind_err (total_distance data) (\<lambda>d.
     bind_err (total_time data) (\<lambda>t.
     Inr (if t > 0 then np_divide d t else Finite 0)))"

text \<open>The three-row series of the round-trip scenario.\<close>

definition scenario :: telemetry where
  "scenario = \<lparr>time_data = [0, 1000, 2000], x_data = [0, 3, 3], y_data = [0, 4, 4],
     theta_data = [0, 0, 0], light_data = [50, 50, 50], distance_data = [10, 10, 10]\<rparr>"

section \<open>The telemetry loader\<close>

subsection \<open>The rows of a file\<close>

text \<open>
  A file is given by the rows \<^verbatim>\<open>csv.reader\<close> yields for it, each the list of the
  fields of one line; a blank line yields the empty row. (The bytes of the file
  decode to text and the \<^verbatim>\<open>csv\<close> module accepts it: a file that fails there
  raises while it is read, and never \<^verbatim>\<open>FileNotFoundError\<close>.)
\<close>

type_synonym csv_row = "string list"

subsection \<open>The file system and \<^verbatim>\<open>open\<close>\<close>

text \<open>
  The file system of a POSIX machine. A path names a regular file, a directory or
  nothing; \<open>entries\<close> says which. Paths are taken as they are written (no links, no
  \<^verbatim>\<open>.\<close> or \<^verbatim>\<open>..\<close>). A path can be refused for a reason that is not modelled
  further (a name that is too long, a missing permission, a name the encoding of the
  file system cannot write): \<open>refused\<close> holds the exception \<^verbatim>\<open>open\<close> then raises.
\<close>

datatype node = Regular "csv_row list" | Directory

record file_system =
  entries :: "string \<rightharpoonup> node"
  refused :: "string \<rightharpoonup> error"

text \<open>
  The ancestors of a path: its proper prefixes that end before a \<^verbatim>\<open>/\<close>, the root
  apart.
\<close>

fun ancestors_from :: "string \<Rightarrow> string \<Rightarrow> string list" where
  "ancestors_from pre [] = []"
| "ancestors_from pre (c # cs) =
     (if c = CHR ''/'' \<and> pre \<noteq> [] then [pre] else []) @ ancestors_from (pre @ [c]) cs"

definition ancestors :: "string \<Rightarrow> string list" where
  "ancestors filename = ancestors_from [] filename"

definition is_regular :: "file_system \<Rightarrow> string \<Rightarrow> bool" where
  "is_regular fs q = (case entries fs q of Some (Regular lines) \<Rightarrow> True | _ \<Rightarrow> False)"

text \<open>
  \<^verbatim>\<open>open(filename, 'r')\<close> and the reading of the file. A path with a NUL character
  raises \<^verbatim>\<open>ValueError\<close> before the operating system is asked; a path below a
  regular file raises \<^verbatim>\<open>NotADirectoryError\<close>; a path that names nothing raises
  \<^verbatim>\<open>FileNotFoundError\<close>; a directory raises \<^verbatim>\<open>IsADirectoryError\<close>.
\<close>

definition open_file :: "file_system \<Rightarrow> string \<Rightarrow> error + csv_row list" where
  "open_file fs filename =
     (if CHR 0x00 \<in> set filename then Inl ValueError
      else case refused fs filename of
        Some e \<Rightarrow> Inl e
      | None \<Rightarrow>
          if list_ex (is_regular fs) (ancestors filename) then Inl NotADirectoryError
          else (case entries fs filename of
                  None \<Rightarrow> Inl FileNotFoundError
                | Some Directory \<Rightarrow> Inl IsADirectoryError
                | Some (Regular lines) \<Rightarrow> Inr lines))"

text \<open>The file system that holds one regular file and nothing else.\<close>

definition single_file :: "string \<Rightarrow> csv_row list \<Rightarrow> file_system" where
  "single_file name lines = \<lparr>entries = [name \<mapsto> Regular lines], refused = Map.empty\<rparr>"

subsection \<open>The dictionaries of \<^verbatim>\<open>csv.DictReader\<close>\<close>

text \<open>
  The dictionary \<^verbatim>\<open>DictReader.__next__\<close> builds for a row:
  \<^verbatim>\<open>dict(zip(fieldnames, row))\<close>, where a later duplicate of a field name wins, and,
  when the row is shorter than the header, \<^verbatim>\<open>None\<close> (the \<^verbatim>\<open>restval\<close>) under each
  field name past the row's end. The surplus fields of a longer row are stored under
  the key \<^verbatim>\<open>None\<close>, which no lookup by a name reaches. A value of the dictionary is
  \<open>Some s\<close> for a field \<open>s\<close> and \<open>None\<close> for \<^verbatim>\<open>None\<close>.
\<close>

definition dict_row :: "csv_row \<Rightarrow> csv_row \<Rightarrow> (string \<rightharpoonup> string option)" where
  "dict_row fieldnames row =
     (let d = fold (\<lambda>(k, v) m. m(k \<mapsto> Some v)) (zip fieldnames row) Map.empty
      in if length row < length fieldnames
         then fold (\<lambda>k m. m(k \<mapsto> None)) (drop (length row) fieldnames) d
         else d)"

subsection \<open>\<^verbatim>\<open>read_path_data\<close>\<close>

text \<open>
  \<^verbatim>\<open>float(row[k])\<close> and \<^verbatim>\<open>int(row[k])\<close>: a missing key raises \<^verbatim>\<open>KeyError\<close>,
  the value \<^verbatim>\<open>None\<close> raises \<^verbatim>\<open>TypeError\<close>, a string that is not a literal of the
  type raises \<^verbatim>\<open>ValueError\<close>. The builtins \<^verbatim>\<open>float\<close> and \<^verbatim>\<open>int\<close> on strings are
  parameters of the model (\<open>None\<close> where they raise): every theorem below holds
  for whatever literals they accept.
\<close>

definition parse_field ::
  "(string \<Rightarrow> 'a option) \<Rightarrow> (string \<rightharpoonup> string option) \<Rightarrow> string \<Rightarrow> error + 'a" where
  "parse_field conv row k =
     (case row k of
        None \<Rightarrow> Inl (KeyError k)
      | Some None \<Rightarrow> Inl TypeError
      | Some (Some s) \<Rightarrow> (case conv s of None \<Rightarrow> Inl ValueError | Some v \<Rightarrow> Inr v))"

text \<open>The body of the loop: six conversions and appends, in the order of the source.\<close>

definition append_row ::
  "(string \<Rightarrow> real option) \<Rightarrow> (string \<Rightarrow> int option) \<Rightarrow> (string \<rightharpoonup> string option)
     \<Rightarrow> telemetry \<Rightarrow> error + telemetry" where
  "append_row py_float py_int row d =
     bind_err (parse_field py_float row ''Time'') (\<lambda>v.
     let d = d\<lparr>time_data := time_data d @ [v]\<rparr> in
     bind_err (parse_field py_float row ''X'') (\<lambda>v.
     let d = d\<lparr>x_data := x_data d @ [v]\<rparr> in
     bind_err (parse_field py_float row ''Y'') (\<lambda>v.
     let d = d\<lparr>y_data := y_data d @ [v]\<rparr> in
     bind_err (parse_field py_float row ''Theta'') (\<lambda>v.
     let d = d\<lparr>theta_data := theta_data d @ [v]\<rparr> in
     bind_err (parse_field py_int row ''Light'') (\<lambda>v.
     let d = d\<lparr>light_data := light_data d @ [v]\<rparr> in
     bind_err (parse_field py_int row ''Dist'') (\<lambda>v.
     Inr (d\<lparr>distance_data := distance_data d @ [v]\<rparr>)))))))"

text \<open>
  \<^verbatim>\<open>for row in reader\<close>: the reader skips the empty rows; an exception in the body
  ends the loop and the function.
\<close>

fun read_rows ::
  "(string \<Rightarrow> real option) \<Rightarrow> (string \<Rightarrow> int option) \<Rightarrow> csv_row \<Rightarrow> csv_row list
     \<Rightarrow> telemetry \<Rightarrow> error + telemetry" where
  "read_rows py_float py_int fieldnames [] d = Inr d"
| "read_rows py_float py_int fieldnames (row # rows) d =
     (if row = [] then read_rows py_float py_int fieldnames rows d
      else bind_err (append_row py_float py_int (dict_row fieldnames row) d)
             (read_rows py_float py_int fieldnames rows))"

definition empty_series :: telemetry where
  "empty_series = \<lparr>time_data = [], x_data = [], y_data = [], theta_data = [],
     light_data = [], distance_data = []\<rparr>"

text \<open>
  The first row of the file, whatever it holds, is the header; a file with no row at
  all has no header and no data row. The arrays \<^verbatim>\<open>np.array\<close> builds from the six
  lists hold the values of the lists: floats as they are, and integers as they are as
  long as they are within int64 (larger ones are outside the model).
\<close>

definition read_path_data ::
  "(string \<Rightarrow> real option) \<Rightarrow> (string \<Rightarrow> int option) \<Rightarrow> file_system \<Rightarrow> string
     \<Rightarrow> error + telemetry" where
  "read_path_data py_float py_int fs filename =
     bind_err (open_file fs filename) (\<lambda>lines.
     case lines of
       [] \<Rightarrow> Inr empty_series
     | fieldnames # rows \<Rightarrow> read_rows py_float py_int fieldnames rows empty_series)"

subsection \<open>Well-formed files\<close>

text \<open>The data rows of a file: the rows after the header that are not blank.\<close>

definition data_rows :: "csv_row list \<Rightarrow> csv_row list" where
  "data_rows rows = filter (\<lambda>row. row \<noteq> []) rows"

definition required_columns :: "string list" where
  "required_columns = [''Time'', ''X'', ''Y'', ''Theta'', ''Light'', ''Dist'']"

text \<open>
  The number a data row holds in a column: the field under the column's name, read
  as a literal; \<open>None\<close> when the row has no field there or the field is no literal.
\<close>

definition field_value ::
  "(string \<Rightarrow> 'a option) \<Rightarrow> csv_row \<Rightarrow> csv_row \<Rightarrow> string \<Rightarrow> 'a option" where
  "field_value conv fieldnames row k =
     (case dict_row fieldnames row k of Some (Some s) \<Rightarrow> conv s | _ \<Rightarrow> None)"

definition parseable_row ::
  "(string \<Rightarrow> real option) \<Rightarrow> (string \<Rightarrow> int option) \<Rightarrow> csv_row \<Rightarrow> csv_row \<Rightarrow> bool" where
  "parseable_row py_float py_int fieldnames row \<longleftrightarrow>
     list_all (\<lambda>k. field_value py_float fieldnames row k \<noteq> None)
       [''Time'', ''X'', ''Y'', ''Theta'']
     \<and> list_all (\<lambda>k. field_value py_int fieldnames row k \<noteq> None) [''Light'', ''Dist'']"

text \<open>
  Literals for the examples: a string of decimal digits, which \<^verbatim>\<open>int\<close> and
  \<^verbatim>\<open>float\<close> both read as the number it writes. (They accept more; the examples
  use no other string.)
\<close>

definition digit_value :: "char \<Rightarrow> nat option" where
  "digit_value c =
     (let n = (of_char c :: nat) in if 48 \<le> n \<and> n \<le> 57 then Some (n - 48) else None)"

fun decimal :: "nat \<Rightarrow> string \<Rightarrow> nat option" where
  "decimal acc [] = Some acc"
| "decimal acc (c # cs) =
     (case digit_value c of None \<Rightarrow> None | Some v \<Rightarrow> decimal (10 * acc + v) cs)"

definition digits_int :: "string \<Rightarrow> int option" where
  "digits_int s = (if s = [] then None else map_option int (decimal 0 s))"

definition digits_float :: "string \<Rightarrow> real option" where
  "digits_float s = (if s = [] then None else map_option real (decimal 0 s))"

section \<open>The renderers\<close>

subsection \<open>Directional arrows\<close>

text \<open>\<^verbatim>\<open>range(start, stop, step)\<close> for a step of at least 1, as a list.\<close>

function range_list :: "nat \<Rightarrow> nat \<Rightarrow> nat \<Rightarrow> nat list" where
  "range_list i stop step =
     (if i < stop \<and> 0 < step then i # range_list (i + step) stop step else [])"
  by pat_completeness auto
termination
  by (relation "measure (\<lambda>(i, stop, step). stop - i)") auto

declare range_list.simps [simp del]

text \<open>A \<^verbatim>\<open>for\<close> loop over a list whose body can raise: it stops at the first exception.\<close>

fun for_each :: "('a \<Rightarrow> error + 'b) \<Rightarrow> 'a list \<Rightarrow> error + 'b list" where
  "for_each f [] = Inr []"
| "for_each f (v # vs) =
     bind_err (f v) (\<lambda>r. bind_err (for_each f vs) (\<lambda>rs. Inr (r # rs)))"

text \<open>\<^verbatim>\<open>theta_rad = np.deg2rad(data['theta'][i] / 100.0)\<close>, in both renderers.\<close>

definition theta_rad :: "telemetry \<Rightarrow> nat \<Rightarrow> error + real" where
  "theta_rad data i =
     bind_err (index_at (theta_data data) i) (\<lambda>th. Inr (deg2rad (th / 100)))"

text \<open>
  One arrow, as \<^verbatim>\<open>arrow(data['x'][i], data['y'][i], dx, dy)\<close> receives it, with
  \<^verbatim>\<open>dx = len * np.cos(theta_rad)\<close> and \<^verbatim>\<open>dy = len * np.sin(theta_rad)\<close>; the
  length is 3 on the dashboard and 4 in the simple plot.
\<close>

record arrow =
  arrow_x :: real
  arrow_y :: real
  arrow_dx :: real
  arrow_dy :: real

definition arrow_at :: "real \<Rightarrow> telemetry \<Rightarrow> nat \<Rightarrow> error + arrow" where
  "arrow_at len data i =
     bind_err (theta_rad data i) (\<lambda>a.
     let dx = len * cos a;
         dy = len * sin a
     in bind_err (index_at (x_data data) i) (\<lambda>xi.
        bind_err (index_at (y_data data) i) (\<lambda>yi.
        Inr \<lparr>arrow_x = xi, arrow_y = yi, arrow_dx = dx, arrow_dy = dy\<rparr>)))"

text \<open>
  \<^verbatim>\<open>plot_robot_path\<close>, lines 46 to 52: \<^verbatim>\<open>skip = max(1, len(data['x']) // 15)\<close>
  and the loop over \<^verbatim>\<open>range(0, len(data['x']), skip)\<close>.
\<close>

definition robot_path_skip :: "telemetry \<Rightarrow> nat" where
  "robot_path_skip data = max 1 (length (x_data data) div 15)"

definition robot_path_indices :: "telemetry \<Rightarrow> nat list" where
  "robot_path_indices data = range_list 0 (length (x_data data)) (robot_path_skip data)"

definition robot_path_arrows :: "telemetry \<Rightarrow> error + arrow list" where
  "robot_path_arrows data = for_each (arrow_at 3 data) (robot_path_indices data)"

text \<open>
  \<^verbatim>\<open>plot_simple_path\<close>, lines 174 to 180: \<^verbatim>\<open>skip = max(1, len(data['x']) // 10)\<close>
  and the same loop.
\<close>

definition simple_path_skip :: "telemetry \<Rightarrow> nat" where
  "simple_path_skip data = max 1 (length (x_data data) div 10)"

definition simple_path_indices :: "telemetry \<Rightarrow> nat list" where
  "simple_path_indices data = range_list 0 (length (x_data data)) (simple_path_skip data)"

definition simple_path_arrows :: "telemetry \<Rightarrow> error + arrow list" where
  "simple_path_arrows data = for_each (arrow_at 4 data) (simple_path_indices data)"

subsection \<open>The thresholded panel (\<^verbatim>\<open>plot_robot_path\<close>, lines 75 to 83)\<close>

definition dark_threshold :: int where
  "dark_threshold = 45"

text \<open>The boolean array \<^verbatim>\<open>data['light'] < dark_threshold\<close>.\<close>

definition dark :: "telemetry \<Rightarrow> bool list" where
  "dark data = map (\<lambda>l. l < dark_threshold) (light_data data)"

definition dark_points_x :: "telemetry \<Rightarrow> error + real list" where
  "dark_points_x data = np_mask (x_data data) (dark data)"

definition dark_points_y :: "telemetry \<Rightarrow> error + real list" where
  "dark_points_y data = np_mask (y_data data) (dark data)"

text \<open>
  \<^verbatim>\<open>if len(dark_points_x) > 0: ax3.scatter(dark_points_x, dark_points_y, ...)\<close>:
  the points of the highlight, or \<open>None\<close> when no highlight is drawn.
\<close>

definition highlight :: "telemetry \<Rightarrow> error + (real \<times> real) list option" where
  "highlight data =
     bind_err (dark_points_x data) (\<lambda>xs.
     bind_err (dark_points_y data) (\<lambda>ys.
     Inr (if length xs > 0 then Some (zip xs ys) else None)))"

subsection \<open>The heading panel (\<^verbatim>\<open>plot_robot_path\<close>, lines 96 and 97)\<close>

text \<open>\<^verbatim>\<open>time_sec = data['time'] / 1000.0\<close> and the plotted \<^verbatim>\<open>data['theta'] / 100.0\<close>.\<close>

definition time_sec :: "telemetry \<Rightarrow> real list" where
  "time_sec data = map (\<lambda>t. t / 1000) (time_data data)"

definition heading_degrees :: "telemetry \<Rightarrow> real list" where
  "heading_degrees data = map (\<lambda>th. th / 100) (theta_data data)"

subsection \<open>Reductions of the statistics text\<close>

text \<open>\<^verbatim>\<open>np.min\<close> and \<^verbatim>\<open>np.max\<close> raise \<^verbatim>\<open>ValueError\<close> on an empty array.\<close>

definition np_min :: "real list \<Rightarrow> error + real" where
  "np_min xs = (if xs = [] then Inl ValueError else Inr (Min (set xs)))"

definition np_max :: "real list \<Rightarrow> error + real" where
  "np_max xs = (if xs = [] then Inl ValueError else Inr (Max (set xs)))"

subsection \<open>Console output\<close>

text \<open>
  What the program writes to the console, one constructor for each \<^verbatim>\<open>print\<close> call
  and each prompt of \<^verbatim>\<open>input\<close>, with the values its text is formatted from. A
  computation that prints and can raise returns what it printed and its outcome.
\<close>

datatype printed =
    Rule
  | Title
  | Prompt_filename
  | Reading_file string
  | Read_points nat
  | Basic_information
  | X_range real real
  | Y_range real real
  | Total_time real
  | Generating_full
  | Image_saved string
  | Prompt_simple
  | Generating_simple
  | Completed
  | File_not_found string
  | Make_sure
  | Error_occurred error

definition emit :: "printed \<Rightarrow> printed list \<times> (error + unit)" where
  "emit p = ([p], Inr ())"

definition raising :: "error + 'a \<Rightarrow> printed list \<times> (error + 'a)" where
  "raising r = ([], r)"

definition bind_io ::
  "printed list \<times> (error + 'a) \<Rightarrow> ('a \<Rightarrow> printed list \<times> (error + 'b))
     \<Rightarrow> printed list \<times> (error + 'b)" where
  "bind_io m f =
     (case m of
        (out, Inl e) \<Rightarrow> (out, Inl e)
      | (out, Inr v) \<Rightarrow> (case f v of (out', r) \<Rightarrow> (out @ out', r)))"

subsection \<open>\<^verbatim>\<open>plot_robot_path\<close> and \<^verbatim>\<open>plot_simple_path\<close>\<close>

text \<open>
  What the dashboard is drawn from, beyond the arrays themselves: the arrows of the
  path panel, the highlight of the thresholded panel, the two lines of the heading
  panel and the numbers of the statistics text. The statements follow the order of
  the source, so the first one that raises decides the exception. (The average of
  the light values in the statistics text, which raises nothing, is left out.)
\<close>

record dashboard =
  path_arrows :: "arrow list"
  black_line :: "(real \<times> real) list option"
  orientation_time :: "real list"
  orientation_degrees :: "real list"
  stat_distance :: real
  stat_time :: real
  stat_speed :: float64
  stat_x_range :: "real \<times> real"
  stat_y_range :: "real \<times> real"
  stat_final_distance :: int

definition draw_dashboard :: "telemetry \<Rightarrow> error + dashboard" where
  "draw_dashboard data =
     bind_err (index_first (x_data data)) (\<lambda>_.
     bind_err (index_first (y_data data)) (\<lambda>_.
     bind_err (index_last (x_data data)) (\<lambda>_.
     bind_err (index_last (y_data data)) (\<lambda>_.
     bind_err (robot_path_arrows data) (\<lambda>arrows.
     bind_err (highlight data) (\<lambda>points.
     bind_err (total_distance data) (\<lambda>d.
     bind_err (total_time data) (\<lambda>t.
     bind_err (avg_speed data) (\<lambda>v.
     bind_err (np_min (x_data data)) (\<lambda>x_min.
     bind_err (np_max (x_data data)) (\<lambda>x_max.
     bind_err (np_min (y_data data)) (\<lambda>y_min.
     bind_err (np_max (y_data data)) (\<lambda>y_max.
     bind_err (index_last (distance_data data)) (\<lambda>final.
     Inr \<lparr>path_arrows = arrows, black_line = points,
          orientation_time = time_sec data, orientation_degrees = heading_degrees data,
          stat_distance = d, stat_time = t, stat_speed = v,
          stat_x_range = (x_min, x_max), stat_y_range = (y_min, y_max),
          stat_final_distance = final\<rparr>))))))))))))))"

definition plot_robot_path ::
  "telemetry \<Rightarrow> bool \<Rightarrow> printed list \<times> (error + dashboard)" where
  "plot_robot_path data save_figure =
     bind_io (raising (draw_dashboard data)) (\<lambda>board.
     bind_io (if save_figure then emit (Image_saved ''robot_path_analysis.png'')
              else raising (Inr ())) (\<lambda>_.
     raising (Inr board)))"

definition draw_simple_path :: "telemetry \<Rightarrow> error + arrow list" where
  "draw_simple_path data =
     bind_err (index_first (x_data data)) (\<lambda>_.
     bind_err (index_first (y_data data)) (\<lambda>_.
     bind_err (index_last (x_data data)) (\<lambda>_.
     bind_err (index_last (y_data data)) (\<lambda>_.
     simple_path_arrows data))))"

definition plot_simple_path ::
  "telemetry \<Rightarrow> bool \<Rightarrow> printed list \<times> (error + arrow list)" where
  "plot_simple_path data save_figure =
     bind_io (raising (draw_simple_path data)) (\<lambda>arrows.
     bind_io (if save_figure then emit (Image_saved ''robot_path_simple.png'')
              else raising (Inr ())) (\<lambda>_.
     raising (Inr arrows)))"

section \<open>The command line\<close>

text \<open>
  \<^verbatim>\<open>str.strip\<close> and \<^verbatim>\<open>str.lower\<close> on ASCII strings: the white space of ASCII is
  the characters 9 to 13 and 28 to 32. Python also strips the white space beyond
  ASCII (U+0085, U+00A0 and others), so what is said of an answer typed at a prompt
  is said of ASCII answers.
\<close>

definition ascii :: "string \<Rightarrow> bool" where
  "ascii s \<longleftrightarrow> list_all (\<lambda>c. (of_char c :: nat) < 128) s"

definition is_space :: "char \<Rightarrow> bool" where
  "is_space c \<longleftrightarrow>
     (let n = (of_char c :: nat) in (9 \<le> n \<and> n \<le> 13) \<or> (28 \<le> n \<and> n \<le> 32))"

definition strip :: "string \<Rightarrow> string" where
  "strip s = rev (dropWhile is_space (rev (dropWhile is_space s)))"

definition lower_char :: "char \<Rightarrow> char" where
  "lower_char c =
     (let n = (of_char c :: nat) in if 65 \<le> n \<and> n \<le> 90 then char_of (n + 32) else c)"

definition lower :: "string \<Rightarrow> string" where
  "lower s = map lower_char s"

text \<open>\<^verbatim>\<open>input()\<close> on the lines still to be read: at the end of the input it raises.\<close>

definition input_line :: "string list \<Rightarrow> error + string" where
  "input_line stdin = (case stdin of [] \<Rightarrow> Inl EOFError | l # _ \<Rightarrow> Inr l)"

text \<open>The body of the \<^verbatim>\<open>try\<close> statement of \<^verbatim>\<open>main\<close> (lines 206 to 224).\<close>

definition main_try ::
  "(string \<Rightarrow> real option) \<Rightarrow> (string \<Rightarrow> int option) \<Rightarrow> file_system \<Rightarrow> string
     \<Rightarrow> string list \<Rightarrow> printed list \<times> (error + unit)" where
  "main_try py_float py_int fs filename stdin =
     bind_io (emit (Reading_file filename)) (\<lambda>_.
     bind_io (raising (read_path_data py_float py_int fs filename)) (\<lambda>data.
     bind_io (emit (Read_points (length (x_data data)))) (\<lambda>_.
     bind_io (emit Basic_information) (\<lambda>_.
     bind_io (raising (np_min (x_data data))) (\<lambda>x_min.
     bind_io (raising (np_max (x_data data))) (\<lambda>x_max.
     bind_io (emit (X_range x_min x_max)) (\<lambda>_.
     bind_io (raising (np_min (y_data data))) (\<lambda>y_min.
     bind_io (raising (np_max (y_data data))) (\<lambda>y_max.
     bind_io (emit (Y_range y_min y_max)) (\<lambda>_.
     bind_io (raising (index_last (time_data data))) (\<lambda>t_last.
     bind_io (raising (index_first (time_data data))) (\<lambda>t_first.
     bind_io (emit (Total_time ((t_last - t_first) / 1000))) (\<lambda>_.
     bind_io (emit Generating_full) (\<lambda>_.
     bind_io (plot_robot_path data True) (\<lambda>_.
     bind_io (emit Prompt_simple) (\<lambda>_.
     bind_io (raising (input_line stdin)) (\<lambda>answer.
     let choice = lower (strip answer) in
     bind_io (if choice = ''y'' \<or> choice = ''yes''
              then bind_io (emit Generating_simple) (\<lambda>_.
                   bind_io (plot_simple_path data True) (\<lambda>_. raising (Inr ())))
              else raising (Inr ())) (\<lambda>_.
     bind_io (emit Completed) (\<lambda>_.
     emit Rule)))))))))))))))))))"

text \<open>
  \<^verbatim>\<open>main\<close>: the banner, the prompt for the file name (an empty answer stands for
  \<^verbatim>\<open>path.txt\<close>), the \<^verbatim>\<open>try\<close> statement and its two handlers. The first
  \<^verbatim>\<open>input\<close> is outside the \<^verbatim>\<open>try\<close>: its exception leaves \<^verbatim>\<open>main\<close>. Every
  exception of the body is caught, so \<^verbatim>\<open>main\<close> then returns normally, \<open>Inr ()\<close>.
\<close>

definition default_filename :: "string \<Rightarrow> string" where
  "default_filename answer =
     (let filename = strip answer in if filename = [] then ''path.txt'' else filename)"

definition main ::
  "(string \<Rightarrow> real option) \<Rightarrow> (string \<Rightarrow> int option) \<Rightarrow> file_system \<Rightarrow> string list
     \<Rightarrow> printed list \<times> (error + unit)" where
  "main py_float py_int fs stdin =
     bind_io (emit Rule) (\<lambda>_.
     bind_io (emit Title) (\<lambda>_.
     bind_io (emit Rule) (\<lambda>_.
     bind_io (emit Prompt_filename) (\<lambda>_.
     bind_io (raising (input_line stdin)) (\<lambda>answer.
     let filename = default_filename answer in
     (case main_try py_float py_int fs filename (tl stdin) of
        (out, Inr _) \<Rightarrow> (out, Inr ())
      | (out, Inl FileNotFoundError) \<Rightarrow>
          (out @ [File_not_found filename, Make_sure], Inr ())
      | (out, Inl e) \<Rightarrow> (out @ [Error_occurred e], Inr ())))))))"

text \<open>The header of a well-formed file, for the examples.\<close>

definition example_header :: csv_row where
  "example_header = [''Time'', ''X'', ''Y'', ''Theta'', ''Light'', ''Dist'']"

section \<open>Example series\<close>

text \<open>Five samples along the x axis.\<close>

definition five_samples :: telemetry where
  "five_samples = \<lparr>time_data = [0, 100, 200, 300, 400], x_data = [0, 1, 2, 3, 4],
     y_data = [0, 0, 0, 0, 0], theta_data = [0, 0, 0, 0, 0],
     light_data = [50, 50, 50, 50, 50], distance_data = [10, 10, 10, 10, 10]\<rparr>"

text \<open>Thirty samples along the x axis, at \<open>x = 0, 1, \<dots>, 29\<close>.\<close>

definition thirty_samples :: telemetry where
  "thirty_samples = \<lparr>time_data = map (\<lambda>k. 100 * real k) [0..<30],
     x_data = map real [0..<30], y_data = replicate 30 0, theta_data = replicate 30 0,
     light_data = replicate 30 50, distance_data = replicate 30 10\<rparr>"


text \<open>A series with the light values 10, 50 and 80.\<close>

definition light_samples :: telemetry where
  "light_samples = \<lparr>time_data = [0, 1000, 2000], x_data = [1, 2, 3], y_data = [4, 5, 6],
     theta_data = [0, 0, 0], light_data = [10, 50, 80], distance_data = [10, 10, 10]\<rparr>"



section \<open>Properties\<close>

subsection \<open>Auxiliary facts\<close>

lemma bind_err_Inr [simp]: "bind_err (Inr v) f = f v"
  by (simp add: bind_err_def)

lemma bind_err_Inl [simp]: "bind_err (Inl e) f = Inl e"
  by (simp add: bind_err_def)

lemma bind_err_eq_Inr:
  "bind_err m f = Inr r \<longleftrightarrow> (\<exists>v. m = Inr v \<and> f v = Inr r)"
  by (cases m) simp_all

lemma sqrt_25: "sqrt 25 = 5"
proof -
  have "sqrt (5\<^sup>2) = 5" by (simp del: real_sqrt_four)
  then show ?thesis by simp
qed

lemma distances_scenario: "distances scenario = Inr [5, 0]"
  by (simp add: distances_def scenario_def np_diff_def np_add_def sqrt_25)

lemma round64_eval:
  assumes "2 ^ k \<le> \<bar>v\<bar>" and "\<bar>v\<bar> < 2 ^ Suc k"
  shows "round64 v = of_int (round_half_even (v * 2 ^ 52 / 2 ^ k)) * 2 ^ k / 2 ^ 52"
proof -
  have "(0::real) < 2 ^ k" by simp
  with assms(1) have pos: "0 < \<bar>v\<bar>" by linarith
  then have nz: "v \<noteq> 0" by simp
  have "\<lfloor>log 2 \<bar>v\<bar>\<rfloor> = int k"
    using assms by (subst floor_log_eq_powr_iff [OF pos]) (simp_all add: powr_realpow powr_add)
  then have u: "2 powr of_int (\<lfloor>log 2 \<bar>v\<bar>\<rfloor> - 52) = (2 ^ k / 2 ^ 52 :: real)"
    by (simp add: powr_diff powr_realpow)
  show ?thesis
    unfolding round64_def Let_def u using nz by simp
qed

lemma round64_0 [simp]: "round64 0 = 0"
  by (simp add: round64_def)



lemma round64_5: "round64 5 = 5"
  using round64_eval [of 2 5] by (simp add: round_half_even_def)

lemma pairwise_sum_short: "length vs < 8 \<Longrightarrow> pairwise_sum vs = sum_loop 0 vs"
  by (simp add: pairwise_sum.simps)

lemma np_sum_scenario: "np_sum [5, 0] = 5"
  by (simp add: np_sum_def pairwise_sum_short sum_loop_def add64_def round64_5)

lemma total_distance_scenario: "total_distance scenario = Inr 5"
  by (simp add: total_distance_def distances_scenario np_sum_scenario)

lemma ancestors_from_no_slash: "CHR ''/'' \<notin> set p \<Longrightarrow> ancestors_from pre p = []"
  by (induction p arbitrary: pre) auto

lemma open_single_file:
  "CHR 0x00 \<notin> set name \<Longrightarrow> CHR ''/'' \<notin> set name \<Longrightarrow>
     open_file (single_file name lines) name = Inr lines"
  by (simp add: open_file_def single_file_def ancestors_def ancestors_from_no_slash)

subsection \<open>The round-trip scenario\<close>

text \<open>The series is what the loader returns for the file of the three rows.\<close>

lemma scenario_loaded:
  "read_path_data digits_float digits_int
     (single_file ''path.txt'' [example_header,
        [''0'', ''0'', ''0'', ''0'', ''50'', ''10''],
        [''1000'', ''3'', ''4'', ''0'', ''50'', ''10''],
        [''2000'', ''3'', ''4'', ''0'', ''50'', ''10'']]) ''path.txt''
     = Inr scenario"
  by (simp add: read_path_data_def open_single_file append_row_def parse_field_def
      dict_row_def empty_series_def example_header_def digits_float_def digits_int_def
      digit_value_def scenario_def)

text \<open>
  C1. For the series with rows (0,0,0,0,50,10), (1000,3,4,0,50,10) and
  (2000,3,4,0,50,10) the path length is 5, the elapsed time is 2 seconds and the
  average speed is 2.5 cm/s.
\<close>

theorem scenario_statistics:
  "total_distance scenario = Inr 5 \<and> total_time scenario = Inr 2
     \<and> avg_speed scenario = Inr (Finite (5 / 2))"
proof -
  have d: "total_distance scenario = Inr 5"
    by (rule total_distance_scenario)
  have t: "total_time scenario = Inr 2"
    by (simp add: total_time_def scenario_def index_last_def index_first_def)
  have "avg_speed scenario = Inr (Finite (5 / 2))"
    by (simp add: avg_speed_def d t np_divide_def)
  with d t show ?thesis by simp
qed

subsection \<open>The guard of the average speed\<close>

lemma total_time_eq:
  "time_data data \<noteq> [] \<Longrightarrow>
     total_time data = Inr ((last (time_data data) - hd (time_data data)) / 1000)"
  by (cases "time_data data") (simp_all add: total_time_def index_last_def index_first_def)

lemma total_time_Inr_iff:
  "(\<exists>t. total_time data = Inr t) \<longleftrightarrow> time_data data \<noteq> []"
proof
  assume "\<exists>t. total_time data = Inr t"
  then show "time_data data \<noteq> []"
    by (auto simp: total_time_def index_last_def)
next
  assume "time_data data \<noteq> []"
  from total_time_eq [OF this] show "\<exists>t. total_time data = Inr t"
    by blast
qed

lemma length_np_diff [simp]: "length (np_diff xs) = length xs - 1"
  by (simp add: np_diff_def)

lemma distances_aligned:
  "length (x_data data) = length (y_data data) \<Longrightarrow>
     distances data =
       Inr (map (\<lambda>(a, b). sqrt (a\<^sup>2 + b\<^sup>2)) (zip (np_diff (x_data data)) (np_diff (y_data data))))"
  by (simp add: distances_def np_add_def zip_map_map split_def)

lemma total_distance_aligned:
  "length (x_data data) = length (y_data data) \<Longrightarrow> \<exists>d. total_distance data = Inr d"
  by (simp add: total_distance_def distances_aligned)

lemma np_divide_zero: "np_divide d 0 \<noteq> Finite v"
  by (simp add: np_divide_def)

text \<open>
  C2. In a series (x and y of one length) whose elapsed time is 0, the average speed
  is 0 and nothing is raised; when the elapsed time is positive, the average speed is
  the path length divided by the elapsed time. (The quotient itself, taken at an
  elapsed time of 0, is never the number 0: lemma \<open>np_divide_zero\<close>.)
\<close>

theorem avg_speed_guard:
  assumes "length (x_data data) = length (y_data data)"
    and "total_time data = Inr t"
  shows "\<exists>d. total_distance data = Inr d
       \<and> (t = 0 \<longrightarrow> avg_speed data = Inr (Finite 0))
       \<and> (t > 0 \<longrightarrow> avg_speed data = Inr (Finite (d / t)))"
proof -
  from total_distance_aligned [OF assms(1)]
  obtain d where d: "total_distance data = Inr d" ..
  with assms(2) show ?thesis
    by (simp add: avg_speed_def np_divide_def)
qed

theorem avg_speed_guard_witness:
  "total_time scenario = Inr 2 \<and> avg_speed scenario = Inr (Finite (5 / 2))
     \<and> total_distance (scenario\<lparr>time_data := [7, 7, 7]\<rparr>) = Inr 5
     \<and> total_time (scenario\<lparr>time_data := [7, 7, 7]\<rparr>) = Inr 0
     \<and> avg_speed (scenario\<lparr>time_data := [7, 7, 7]\<rparr>) = Inr (Finite 0)
     \<and> np_divide 5 0 = Pos_Inf"
proof -
  have len: "length (x_data scenario) = length (y_data scenario)"
    by (simp add: scenario_def)
  have d: "total_distance scenario = Inr 5"
    by (rule total_distance_scenario)
  have t: "total_time scenario = Inr 2"
    by (simp add: total_time_def scenario_def index_last_def index_first_def)
  have len0: "length (x_data (scenario\<lparr>time_data := [7, 7, 7]\<rparr>))
      = length (y_data (scenario\<lparr>time_data := [7, 7, 7]\<rparr>))"
    by (simp add: scenario_def)
  have d0: "total_distance (scenario\<lparr>time_data := [7, 7, 7]\<rparr>) = Inr 5"
    using d by (simp add: total_distance_def distances_def)
  have t0: "total_time (scenario\<lparr>time_data := [7, 7, 7]\<rparr>) = Inr 0"
    by (simp add: total_time_def index_last_def index_first_def)
  have q: "np_divide 5 0 = Pos_Inf"
    by (simp add: np_divide_def)
  from avg_speed_guard [OF len t] avg_speed_guard [OF len0 t0] d d0 t t0 q
  show ?thesis by auto
qed

subsection \<open>The loader\<close>

lemma fold_upd_other:
  "k \<notin> fst ` set kvs \<Longrightarrow> fold (\<lambda>(k, v) m. m(k \<mapsto> Some v)) kvs m k = m k"
  by (induction kvs arbitrary: m) (auto simp: split_def)

lemma fold_none_other:
  "k \<notin> set ks \<Longrightarrow> fold (\<lambda>k m. m(k \<mapsto> None)) ks m k = m k"
  by (induction ks arbitrary: m) auto

lemma dict_row_missing:
  assumes "k \<notin> set fieldnames"
  shows "dict_row fieldnames row k = None"
proof -
  have a: "k \<notin> fst ` set (zip fieldnames row)"
    using assms by (auto dest: set_zip_leftD)
  have b: "k \<notin> set (drop (length row) fieldnames)"
    using assms by (auto dest: in_set_dropD)
  show ?thesis
    by (simp add: dict_row_def Let_def fold_none_other [OF b] fold_upd_other [OF a])
qed

lemma parse_field_missing: "row k = None \<Longrightarrow> parse_field conv row k = Inl (KeyError k)"
  by (simp add: parse_field_def)

lemma append_row_missing:
  assumes "k \<in> set required_columns" and "row k = None"
  shows "\<exists>e. append_row py_float py_int row d = Inl e"
proof -
  have "parse_field py_float row k = Inl (KeyError k)" "parse_field py_int row k = Inl (KeyError k)"
    using assms(2) by (simp_all add: parse_field_missing)
  with assms(1) show ?thesis
    by (auto simp: append_row_def required_columns_def bind_err_def Let_def split: sum.splits)
qed

lemma read_rows_first_fails:
  "data_rows rows = r # rs \<Longrightarrow> append_row py_float py_int (dict_row fieldnames r) d = Inl e
     \<Longrightarrow> read_rows py_float py_int fieldnames rows d = Inl e"
proof (induction rows)
  case Nil
  then show ?case by (simp add: data_rows_def)
next
  case (Cons row rows)
  then show ?case by (cases "row = []") (simp_all add: data_rows_def)
qed

lemma read_rows_blank:
  "data_rows rows = [] \<Longrightarrow> read_rows py_float py_int fieldnames rows d = Inr d"
  by (induction rows) (auto simp: data_rows_def split: if_splits)

lemma parse_field_value:
  "field_value conv fieldnames row k = Some v \<Longrightarrow>
     parse_field conv (dict_row fieldnames row) k = Inr v"
  by (auto simp: field_value_def parse_field_def split: option.splits)

lemma append_row_parseable:
  assumes "parseable_row py_float py_int fieldnames row"
  shows "\<exists>d'. append_row py_float py_int (dict_row fieldnames row) d = Inr d'
    \<and> map Some (time_data d') = map Some (time_data d) @ [field_value py_float fieldnames row ''Time'']
    \<and> map Some (x_data d') = map Some (x_data d) @ [field_value py_float fieldnames row ''X'']
    \<and> map Some (y_data d') = map Some (y_data d) @ [field_value py_float fieldnames row ''Y'']
    \<and> map Some (theta_data d') = map Some (theta_data d) @ [field_value py_float fieldnames row ''Theta'']
    \<and> map Some (light_data d') = map Some (light_data d) @ [field_value py_int fieldnames row ''Light'']
    \<and> map Some (distance_data d') = map Some (distance_data d) @ [field_value py_int fieldnames row ''Dist'']"
proof -
  from assms obtain v1 v2 v3 v4 v5 v6 where
    v: "field_value py_float fieldnames row ''Time'' = Some v1"
       "field_value py_float fieldnames row ''X'' = Some v2"
       "field_value py_float fieldnames row ''Y'' = Some v3"
       "field_value py_float fieldnames row ''Theta'' = Some v4"
       "field_value py_int fieldnames row ''Light'' = Some v5"
       "field_value py_int fieldnames row ''Dist'' = Some v6"
    by (auto simp: parseable_row_def)
  show ?thesis
    by (simp add: append_row_def Let_def v parse_field_value [OF v(1)] parse_field_value [OF v(2)]
      parse_field_value [OF v(3)] parse_field_value [OF v(4)] parse_field_value [OF v(5)]
      parse_field_value [OF v(6)])
qed

lemma read_rows_parseable:
  assumes "\<forall>row \<in> set (data_rows rows). parseable_row py_float py_int fieldnames row"
  shows "\<exists>d'. read_rows py_float py_int fieldnames rows d = Inr d'
    \<and> map Some (time_data d') = map Some (time_data d) @ map (\<lambda>row. field_value py_float fieldnames row ''Time'') (data_rows rows)
    \<and> map Some (x_data d') = map Some (x_data d) @ map (\<lambda>row. field_value py_float fieldnames row ''X'') (data_rows rows)
    \<and> map Some (y_data d') = map Some (y_data d) @ map (\<lambda>row. field_value py_float fieldnames row ''Y'') (data_rows rows)
    \<and> map Some (theta_data d') = map Some (theta_data d) @ map (\<lambda>row. field_value py_float fieldnames row ''Theta'') (data_rows rows)
    \<and> map Some (light_data d') = map Some (light_data d) @ map (\<lambda>row. field_value py_int fieldnames row ''Light'') (data_rows rows)
    \<and> map Some (distance_data d') = map Some (distance_data d) @ map (\<lambda>row. field_value py_int fieldnames row ''Dist'') (data_rows rows)"
  using assms
proof (induction rows arbitrary: d)
  case Nil
  then show ?case by (simp add: data_rows_def)
next
  case (Cons row rows)
  show ?case
  proof (cases "row = []")
    case True
    with Cons.IH [of d] Cons.prems show ?thesis by (simp add: data_rows_def)
  next
    case False
    with Cons.prems have p: "parseable_row py_float py_int fieldnames row"
      and rest: "\<forall>row \<in> set (data_rows rows). parseable_row py_float py_int fieldnames row"
      by (simp_all add: data_rows_def)
    from append_row_parseable [OF p, of d] obtain d1 where
      d1: "append_row py_float py_int (dict_row fieldnames row) d = Inr d1"
      and f1: "map Some (time_data d1) = map Some (time_data d) @ [field_value py_float fieldnames row ''Time'']"
        "map Some (x_data d1) = map Some (x_data d) @ [field_value py_float fieldnames row ''X'']"
        "map Some (y_data d1) = map Some (y_data d) @ [field_value py_float fieldnames row ''Y'']"
        "map Some (theta_data d1) = map Some (theta_data d) @ [field_value py_float fieldnames row ''Theta'']"
        "map Some (light_data d1) = map Some (light_data d) @ [field_value py_int fieldnames row ''Light'']"
        "map Some (distance_data d1) = map Some (distance_data d) @ [field_value py_int fieldnames row ''Dist'']"
      by blast
    from Cons.IH [OF rest, of d1] obtain d' where
      d': "read_rows py_float py_int fieldnames rows d1 = Inr d'"
      and f': "map Some (time_data d') = map Some (time_data d1) @ map (\<lambda>row. field_value py_float fieldnames row ''Time'') (data_rows rows)"
        "map Some (x_data d') = map Some (x_data d1) @ map (\<lambda>row. field_value py_float fieldnames row ''X'') (data_rows rows)"
        "map Some (y_data d') = map Some (y_data d1) @ map (\<lambda>row. field_value py_float fieldnames row ''Y'') (data_rows rows)"
        "map Some (theta_data d') = map Some (theta_data d1) @ map (\<lambda>row. field_value py_float fieldnames row ''Theta'') (data_rows rows)"
        "map Some (light_data d') = map Some (light_data d1) @ map (\<lambda>row. field_value py_int fieldnames row ''Light'') (data_rows rows)"
        "map Some (distance_data d') = map Some (distance_data d1) @ map (\<lambda>row. field_value py_int fieldnames row ''Dist'') (data_rows rows)"
      by blast
    have dr: "data_rows (row # rows) = row # data_rows rows"
      using False by (simp add: data_rows_def)
    have rr: "read_rows py_float py_int fieldnames (row # rows) d = Inr d'"
      using False d1 d' by simp
    show ?thesis
      using rr by (simp del: read_rows.simps add: dr f' f1)
  qed
qed


text \<open>
  C3. For a file whose header holds the six columns and whose data rows all hold a
  literal of the right type in each of them, the loader returns six sequences, each
  as long as the file has data rows, holding the numbers of the rows in row order.
\<close>

theorem read_path_data_well_formed:
  assumes "open_file fs filename = Inr (fieldnames # rows)"
    and "set required_columns \<subseteq> set fieldnames"
    and "\<forall>row \<in> set (data_rows rows). parseable_row py_float py_int fieldnames row"
  shows "\<exists>d. read_path_data py_float py_int fs filename = Inr d
    \<and> length (time_data d) = length (data_rows rows)
    \<and> length (x_data d) = length (data_rows rows)
    \<and> length (y_data d) = length (data_rows rows)
    \<and> length (theta_data d) = length (data_rows rows)
    \<and> length (light_data d) = length (data_rows rows)
    \<and> length (distance_data d) = length (data_rows rows)
    \<and> map Some (time_data d) = map (\<lambda>row. field_value py_float fieldnames row ''Time'') (data_rows rows)
    \<and> map Some (x_data d) = map (\<lambda>row. field_value py_float fieldnames row ''X'') (data_rows rows)
    \<and> map Some (y_data d) = map (\<lambda>row. field_value py_float fieldnames row ''Y'') (data_rows rows)
    \<and> map Some (theta_data d) = map (\<lambda>row. field_value py_float fieldnames row ''Theta'') (data_rows rows)
    \<and> map Some (light_data d) = map (\<lambda>row. field_value py_int fieldnames row ''Light'') (data_rows rows)
    \<and> map Some (distance_data d) = map (\<lambda>row. field_value py_int fieldnames row ''Dist'') (data_rows rows)"
proof -
  from read_rows_parseable [OF assms(3), of empty_series] obtain d where
    d: "read_rows py_float py_int fieldnames rows empty_series = Inr d"
    and f: "map Some (time_data d) = map (\<lambda>row. field_value py_float fieldnames row ''Time'') (data_rows rows)"
      "map Some (x_data d) = map (\<lambda>row. field_value py_float fieldnames row ''X'') (data_rows rows)"
      "map Some (y_data d) = map (\<lambda>row. field_value py_float fieldnames row ''Y'') (data_rows rows)"
      "map Some (theta_data d) = map (\<lambda>row. field_value py_float fieldnames row ''Theta'') (data_rows rows)"
      "map Some (light_data d) = map (\<lambda>row. field_value py_int fieldnames row ''Light'') (data_rows rows)"
      "map Some (distance_data d) = map (\<lambda>row. field_value py_int fieldnames row ''Dist'') (data_rows rows)"
    by (auto simp: empty_series_def)
  have r: "read_path_data py_float py_int fs filename = Inr d"
    using assms(1) d by (simp add: read_path_data_def)
  have l: "length (time_data d) = length (data_rows rows)"
    "length (x_data d) = length (data_rows rows)"
    "length (y_data d) = length (data_rows rows)"
    "length (theta_data d) = length (data_rows rows)"
    "length (light_data d) = length (data_rows rows)"
    "length (distance_data d) = length (data_rows rows)"
    using f [THEN arg_cong, of length] by simp_all
  from r l f show ?thesis by blast
qed

lemma example_rows_parseable:
  "parseable_row digits_float digits_int example_header [''0'', ''0'', ''0'', ''0'', ''50'', ''10'']"
  "parseable_row digits_float digits_int example_header [''1000'', ''3'', ''4'', ''0'', ''50'', ''10'']"
  by (simp_all add: parseable_row_def field_value_def dict_row_def example_header_def
      digits_float_def digits_int_def digit_value_def)

theorem read_path_data_well_formed_witness:
  "\<exists>d. read_path_data digits_float digits_int
       (single_file ''path.txt'' [example_header, [''0'', ''0'', ''0'', ''0'', ''50'', ''10''], [],
          [''1000'', ''3'', ''4'', ''0'', ''50'', ''10'']]) ''path.txt'' = Inr d
    \<and> length (time_data d) = 2 \<and> length (x_data d) = 2 \<and> length (y_data d) = 2
    \<and> length (theta_data d) = 2 \<and> length (light_data d) = 2 \<and> length (distance_data d) = 2
    \<and> map Some (time_data d) = [Some 0, Some 1000]
    \<and> map Some (light_data d) = [Some 50, Some 50]"
proof -
  let ?rows = "[[''0'', ''0'', ''0'', ''0'', ''50'', ''10''], [],
          [''1000'', ''3'', ''4'', ''0'', ''50'', ''10'']]"
  let ?fs = "(single_file ''path.txt'' (example_header # ?rows))"
  have a: "open_file ?fs ''path.txt'' = Inr (example_header # ?rows)"
    by (simp add: open_single_file)
  have b: "set required_columns \<subseteq> set example_header"
    by (simp add: required_columns_def example_header_def)
  have dr: "data_rows ?rows = [[''0'', ''0'', ''0'', ''0'', ''50'', ''10''],
          [''1000'', ''3'', ''4'', ''0'', ''50'', ''10'']]"
    by (simp add: data_rows_def)
  have c: "\<forall>row \<in> set (data_rows ?rows). parseable_row digits_float digits_int example_header row"
    unfolding dr using example_rows_parseable by simp
  have v: "field_value digits_float example_header [''0'', ''0'', ''0'', ''0'', ''50'', ''10''] ''Time'' = Some 0"
    "field_value digits_float example_header [''1000'', ''3'', ''4'', ''0'', ''50'', ''10''] ''Time'' = Some 1000"
    "field_value digits_int example_header [''0'', ''0'', ''0'', ''0'', ''50'', ''10''] ''Light'' = Some 50"
    "field_value digits_int example_header [''1000'', ''3'', ''4'', ''0'', ''50'', ''10''] ''Light'' = Some 50"
    by (simp_all add: field_value_def dict_row_def example_header_def
      digits_float_def digits_int_def digit_value_def)
  from read_path_data_well_formed [where fs = "?fs" and filename = "''path.txt''", OF a b c]
  show ?thesis unfolding dr by (auto simp: v)
qed

text \<open>
  C10. For a file with a header and no data row, the loader returns six empty
  sequences, whatever the header holds: no field is looked up.
\<close>

theorem header_only_file_loads:
  assumes "open_file fs filename = Inr (fieldnames # rows)" and "data_rows rows = []"
  shows "read_path_data py_float py_int fs filename = Inr empty_series"
  using assms by (simp add: read_path_data_def read_rows_blank)

theorem header_only_file_loads_witness:
  "\<not> set required_columns \<subseteq> set [''Time'', ''Light'']
   \<and> read_path_data digits_float digits_int (single_file ''log.csv'' [[''Time'', ''Light''], [], []]) ''log.csv''
       = Inr empty_series"
proof -
  have a: "open_file (single_file ''log.csv'' [[''Time'', ''Light''], [], []]) ''log.csv''
      = Inr ([''Time'', ''Light''] # [[], []])"
    by (simp add: open_single_file)
  have b: "data_rows [[], []] = []" by (simp add: data_rows_def)
  have c: "\<not> set required_columns \<subseteq> set [''Time'', ''Light'']"
    by (simp add: required_columns_def)
  from header_only_file_loads
    [where fs = "(single_file ''log.csv'' [[''Time'', ''Light''], [], []])" and filename = "''log.csv''", OF a b] c
  show ?thesis by simp
qed

text \<open>
  C7. A header that lacks a required column does not by itself make the load fail: a
  file with such a header and no data row loads, with six empty sequences.
\<close>

theorem missing_column_counterexample:
  "\<not> set required_columns \<subseteq> set [''Time'', ''X'']
   \<and> read_path_data digits_float digits_int (single_file ''path.txt'' [[''Time'', ''X'']]) ''path.txt''
       = Inr empty_series"
  by (simp add: required_columns_def read_path_data_def open_single_file)

text \<open>
  C7, as the code has it. When the header lacks a required column and the file has
  a data row, the load fails with the exception the first data row raises, and
  returns no sequence.
\<close>

theorem missing_column_fails:
  assumes "open_file fs filename = Inr (fieldnames # rows)"
    and "k \<in> set required_columns" and "k \<notin> set fieldnames"
    and "data_rows rows \<noteq> []"
  shows "\<exists>e. read_path_data py_float py_int fs filename = Inl e
    \<and> append_row py_float py_int (dict_row fieldnames (hd (data_rows rows))) empty_series = Inl e"
proof -
  from assms(4) obtain r rs where dr: "data_rows rows = r # rs"
    by (cases "data_rows rows") auto
  from append_row_missing [where row = "dict_row fieldnames r", OF assms(2) dict_row_missing [OF assms(3)]]
  obtain e where e: "append_row py_float py_int (dict_row fieldnames r) empty_series = Inl e"
    by blast
  from read_rows_first_fails [OF dr e] assms(1)
  have "read_path_data py_float py_int fs filename = Inl e"
    by (simp add: read_path_data_def)
  with e dr show ?thesis by simp
qed

theorem missing_column_fails_witness:
  "read_path_data digits_float digits_int
     (single_file ''path.txt'' [[''Time'', ''X''], [''0'', ''1''], [''5'', ''2'']]) ''path.txt''
     = Inl (KeyError ''Y'')"
proof -
  let ?rows = "[[''0'', ''1''], [''5'', ''2'']]"
  have a: "open_file (single_file ''path.txt'' [[''Time'', ''X''], [''0'', ''1''], [''5'', ''2'']])
      ''path.txt'' = Inr ([''Time'', ''X''] # ?rows)"
    by (simp add: open_single_file)
  have b: "''Y'' \<in> set required_columns" by (simp add: required_columns_def)
  have c: "''Y'' \<notin> set [''Time'', ''X'']" by simp
  have dr: "data_rows ?rows = ?rows" by (simp add: data_rows_def)
  have d: "data_rows ?rows \<noteq> []" unfolding dr by simp
  have e: "append_row digits_float digits_int (dict_row [''Time'', ''X''] (hd (data_rows ?rows))) empty_series
      = Inl (KeyError ''Y'')"
    unfolding dr
    by (simp add: append_row_def parse_field_def dict_row_def empty_series_def
        digits_float_def digit_value_def)
  from missing_column_fails
    [where fs = "(single_file ''path.txt'' [[''Time'', ''X''], [''0'', ''1''], [''5'', ''2'']])"
      and filename = "''path.txt''" and py_float = digits_float and py_int = digits_int,
      OF a b c d] e
  show ?thesis by auto
qed

subsection \<open>The arrows of the two path plots\<close>

lemma range_list_map:
  "0 < step \<Longrightarrow>
     range_list i stop step = map (\<lambda>k. i + k * step) [0..<(stop - i + step - 1) div step]"
proof (induction i stop step rule: range_list.induct)
  case (1 i stop step)
  show ?case
  proof (cases "i < stop")
    case False
    then have "(stop - i + step - 1) div step = 0" using "1.prems" by simp
    with False show ?thesis by (simp add: range_list.simps [of i])
  next
    case True
    let ?m = "(stop - (i + step) + step - 1) div step"
    have m: "?m = (stop - i - 1) div step"
    proof (cases "i + step \<le> stop")
      case True
      then have "stop - (i + step) + step - 1 = stop - i - 1"
        using "1.prems" by simp
      then show ?thesis by simp
    next
      case False
      then have a: "stop - (i + step) + step - 1 = step - 1" by simp
      have c: "stop - i - 1 < step" using False "1.prems" by arith
      show ?thesis unfolding a using c "1.prems" by simp
    qed
    have e: "stop - i + step - 1 = (stop - i - 1) + step" using True by simp
    have "(stop - i + step - 1) div step = Suc ((stop - i - 1) div step)"
      unfolding e using "1.prems" by simp
    then have n: "(stop - i + step - 1) div step = Suc ?m"
      unfolding m .
    have "range_list i stop step = i # range_list (i + step) stop step"
      using True "1.prems" by (simp add: range_list.simps [of i])
    also have "\<dots> = i # map (\<lambda>k. (i + step) + k * step) [0..<?m]"
      using "1.IH" True "1.prems" by simp
    also have "\<dots> = map (\<lambda>k. i + k * step) [0..<Suc ?m]"
      by (simp add: upt_conv_Cons map_Suc_upt [symmetric] del: upt_Suc) 
    finally show ?thesis unfolding n .
  qed
qed

lemma for_each_length: "for_each f xs = Inr ys \<Longrightarrow> length ys = length xs"
  by (induction xs arbitrary: ys) (auto simp: bind_err_eq_Inr)

lemma for_each_nth:
  "for_each f xs = Inr ys \<Longrightarrow> k < length xs \<Longrightarrow> f (xs ! k) = Inr (ys ! k)"
proof (induction xs arbitrary: ys k)
  case Nil
  then show ?case by simp
next
  case (Cons x xs)
  from Cons.prems(1) obtain r rs where r: "f x = Inr r" and rs: "for_each f xs = Inr rs"
    and ys: "ys = r # rs"
    by (auto simp: bind_err_eq_Inr)
  show ?case
  proof (cases k)
    case 0
    with r ys show ?thesis by simp
  next
    case (Suc j)
    with Cons.prems(2) have "j < length xs" by simp
    from Cons.IH [OF rs this] Suc ys show ?thesis by simp
  qed
qed


lemma simple_path_indices_five: "simple_path_indices five_samples = [0, 1, 2, 3, 4]"
  by (simp add: simple_path_indices_def simple_path_skip_def five_samples_def
      range_list_map upt_conv_Cons)

text \<open>
  C8. The number of arrows of the simple plot is not \<open>max(1, N / 10)\<close>: five
  samples give five arrows, and \<open>max(1, 5 div 10) = 1\<close>.
\<close>

theorem simple_path_count_counterexample:
  "length (simple_path_indices five_samples) = 5
   \<and> max 1 (length (x_data five_samples) div 10) = 1"
  by (simp add: simple_path_indices_five) (simp add: five_samples_def)

text \<open>
  C8, as the code has it. With \<open>N\<close> samples, the dashboard draws its arrows at the
  indices \<open>0, s, 2s, \<dots>\<close> below \<open>N\<close> for \<open>s = max(1, N div 15)\<close>, and the simple
  plot at the indices \<open>0, s', 2s', \<dots>\<close> below \<open>N\<close> for \<open>s' = max(1, N div 10)\<close>:
  in both, \<open>max(1, \<dots>)\<close> is the spacing of the indices, the number of arrows is
  \<open>N\<close> divided by the spacing, rounded up, and the \<open>k\<close>-th arrow drawn is the arrow
  of the sample at index \<open>k\<close> times the spacing.
\<close>

theorem arrow_indices:
  "robot_path_skip data = max 1 (length (x_data data) div 15)
   \<and> robot_path_indices data =
       map (\<lambda>k. k * robot_path_skip data)
         [0..<(length (x_data data) + robot_path_skip data - 1) div robot_path_skip data]
   \<and> simple_path_skip data = max 1 (length (x_data data) div 10)
   \<and> simple_path_indices data =
       map (\<lambda>k. k * simple_path_skip data)
         [0..<(length (x_data data) + simple_path_skip data - 1) div simple_path_skip data]
   \<and> (robot_path_arrows data = Inr arrows \<longrightarrow>
        length arrows
          = (length (x_data data) + robot_path_skip data - 1) div robot_path_skip data
        \<and> (\<forall>k < length arrows.
              arrow_at 3 data (k * robot_path_skip data) = Inr (arrows ! k)))
   \<and> (simple_path_arrows data = Inr arrows' \<longrightarrow>
        length arrows'
          = (length (x_data data) + simple_path_skip data - 1) div simple_path_skip data
        \<and> (\<forall>k < length arrows'.
              arrow_at 4 data (k * simple_path_skip data) = Inr (arrows' ! k)))"
proof -
  let ?nr = "(length (x_data data) + robot_path_skip data - 1) div robot_path_skip data"
  let ?ns = "(length (x_data data) + simple_path_skip data - 1) div simple_path_skip data"
  have r: "0 < robot_path_skip data" by (simp add: robot_path_skip_def)
  have s: "0 < simple_path_skip data" by (simp add: simple_path_skip_def)
  have ri: "robot_path_indices data = map (\<lambda>k. k * robot_path_skip data) [0..<?nr]"
    unfolding robot_path_indices_def using range_list_map [OF r, of 0 "length (x_data data)"]
    by simp
  have si: "simple_path_indices data = map (\<lambda>k. k * simple_path_skip data) [0..<?ns]"
    unfolding simple_path_indices_def using range_list_map [OF s, of 0 "length (x_data data)"]
    by simp
  have ra: "length arrows = ?nr
      \<and> (\<forall>k < length arrows. arrow_at 3 data (k * robot_path_skip data) = Inr (arrows ! k))"
    if a: "robot_path_arrows data = Inr arrows"
  proof -
    from a have fe: "for_each (arrow_at 3 data) (robot_path_indices data) = Inr arrows"
      by (simp add: robot_path_arrows_def)
    from for_each_length [OF fe] have l: "length arrows = ?nr"
      unfolding ri by simp
    have "arrow_at 3 data (k * robot_path_skip data) = Inr (arrows ! k)"
      if k: "k < length arrows" for k
    proof -
      from k l have "k < length (robot_path_indices data)"
        unfolding ri by simp
      from for_each_nth [OF fe this] k l show ?thesis
        unfolding ri by simp
    qed
    with l show ?thesis by blast
  qed
  have sa: "length arrows' = ?ns
      \<and> (\<forall>k < length arrows'. arrow_at 4 data (k * simple_path_skip data) = Inr (arrows' ! k))"
    if a: "simple_path_arrows data = Inr arrows'"
  proof -
    from a have fe: "for_each (arrow_at 4 data) (simple_path_indices data) = Inr arrows'"
      by (simp add: simple_path_arrows_def)
    from for_each_length [OF fe] have l: "length arrows' = ?ns"
      unfolding si by simp
    have "arrow_at 4 data (k * simple_path_skip data) = Inr (arrows' ! k)"
      if k: "k < length arrows'" for k
    proof -
      from k l have "k < length (simple_path_indices data)"
        unfolding si by simp
      from for_each_nth [OF fe this] k l show ?thesis
        unfolding si by simp
    qed
    with l show ?thesis by blast
  qed
  have rs: "robot_path_skip data = max 1 (length (x_data data) div 15)"
    by (simp add: robot_path_skip_def)
  have ss: "simple_path_skip data = max 1 (length (x_data data) div 10)"
    by (simp add: simple_path_skip_def)
  from rs ri ss si ra sa show ?thesis by blast
qed

lemma thirty_samples_skips:
  "length (x_data thirty_samples) = 30" "robot_path_skip thirty_samples = 2"
  "simple_path_skip thirty_samples = 3"
  by (simp_all add: thirty_samples_def robot_path_skip_def simple_path_skip_def)

lemma robot_path_indices_thirty:
  "robot_path_indices thirty_samples = [0, 2, 4, 6, 8, 10, 12, 14, 16, 18, 20, 22, 24, 26, 28]"
  by (simp add: robot_path_indices_def thirty_samples_skips range_list_map upt_conv_Cons)

lemma simple_path_indices_thirty:
  "simple_path_indices thirty_samples = [0, 3, 6, 9, 12, 15, 18, 21, 24, 27]"
  by (simp add: simple_path_indices_def thirty_samples_skips range_list_map upt_conv_Cons)

lemma arrow_at_thirty:
  "k < 30 \<Longrightarrow> arrow_at len thirty_samples k
     = Inr \<lparr>arrow_x = real k, arrow_y = 0, arrow_dx = len, arrow_dy = 0\<rparr>"
  by (simp add: arrow_at_def theta_rad_def index_at_def deg2rad_def thirty_samples_def)

lemma robot_path_arrows_thirty: "\<exists>arrows. robot_path_arrows thirty_samples = Inr arrows"
  unfolding robot_path_arrows_def robot_path_indices_thirty
  by (simp add: arrow_at_thirty)

lemma simple_path_arrows_thirty: "\<exists>arrows. simple_path_arrows thirty_samples = Inr arrows"
  unfolding simple_path_arrows_def simple_path_indices_thirty
  by (simp add: arrow_at_thirty)

theorem arrow_indices_witness:
  "robot_path_skip thirty_samples = 2 \<and> simple_path_skip thirty_samples = 3
   \<and> robot_path_indices thirty_samples
       = [0, 2, 4, 6, 8, 10, 12, 14, 16, 18, 20, 22, 24, 26, 28]
   \<and> simple_path_indices thirty_samples = [0, 3, 6, 9, 12, 15, 18, 21, 24, 27]
   \<and> (\<exists>arrows. robot_path_arrows thirty_samples = Inr arrows \<and> length arrows = 15
        \<and> arrows ! 1 = \<lparr>arrow_x = 2, arrow_y = 0, arrow_dx = 3, arrow_dy = 0\<rparr>)
   \<and> (\<exists>arrows. simple_path_arrows thirty_samples = Inr arrows \<and> length arrows = 10
        \<and> arrows ! 1 = \<lparr>arrow_x = 3, arrow_y = 0, arrow_dx = 4, arrow_dy = 0\<rparr>)"
proof -
  from robot_path_arrows_thirty obtain ra where
    ra: "robot_path_arrows thirty_samples = Inr ra" ..
  from simple_path_arrows_thirty obtain sa where
    sa: "simple_path_arrows thirty_samples = Inr sa" ..
  note t = arrow_indices [of thirty_samples ra sa, unfolded thirty_samples_skips]
  from t ra have lr: "length ra = 15"
    and nr: "\<forall>k < length ra. arrow_at 3 thirty_samples (k * 2) = Inr (ra ! k)"
    by simp_all
  from t sa have ls: "length sa = 10"
    and ns: "\<forall>k < length sa. arrow_at 4 thirty_samples (k * 3) = Inr (sa ! k)"
    by simp_all
  from lr have "1 < length ra" by simp
  from nr [rule_format, OF this]
  have "arrow_at 3 thirty_samples (1 * 2) = Inr (ra ! 1)" .
  then have r1: "ra ! 1 = \<lparr>arrow_x = 2, arrow_y = 0, arrow_dx = 3, arrow_dy = 0\<rparr>"
    by (simp add: arrow_at_thirty)
  from ls have "1 < length sa" by simp
  from ns [rule_format, OF this]
  have "arrow_at 4 thirty_samples (1 * 3) = Inr (sa ! 1)" .
  then have s1: "sa ! 1 = \<lparr>arrow_x = 3, arrow_y = 0, arrow_dx = 4, arrow_dy = 0\<rparr>"
    by (simp add: arrow_at_thirty)
  from ra sa lr ls r1 s1 thirty_samples_skips robot_path_indices_thirty
    simple_path_indices_thirty
  show ?thesis by simp
qed

subsection \<open>The heading\<close>



subsection \<open>The thresholded panel\<close>

lemma mask_filter:
  "length xs = length ls \<Longrightarrow>
     map fst (filter snd (zip xs (map P ls))) = map fst (filter (\<lambda>(x, l). P l) (zip xs ls))"
  by (induction xs ls rule: list_induct2) auto

lemma mask_none:
  "length xs = length ls \<Longrightarrow> \<forall>l \<in> set ls. \<not> P l \<Longrightarrow>
     map fst (filter snd (zip xs (map P ls))) = []"
  by (induction xs ls rule: list_induct2) auto

text \<open>
  C5. A sample is dark exactly when its light value is below 45; of the light values
  10, 50 and 80 only the first is; the dark points are the points of the dark samples,
  in order; and when no sample is dark, no highlight is drawn and nothing is raised.
\<close>

theorem dark_classification:
  "length (dark data) = length (light_data data)
   \<and> (\<forall>i < length (light_data data). dark data ! i \<longleftrightarrow> light_data data ! i < 45)
   \<and> dark (data\<lparr>light_data := [10, 50, 80]\<rparr>) = [True, False, False]
   \<and> (length (x_data data) = length (light_data data)
        \<and> length (y_data data) = length (light_data data) \<longrightarrow>
      dark_points_x data
        = Inr (map fst (filter (\<lambda>(v, l). l < 45) (zip (x_data data) (light_data data))))
      \<and> dark_points_y data
        = Inr (map fst (filter (\<lambda>(v, l). l < 45) (zip (y_data data) (light_data data))))
      \<and> ((\<forall>l \<in> set (light_data data). \<not> l < 45) \<longrightarrow> highlight data = Inr None))"
proof -
  have a: "length (dark data) = length (light_data data)"
    by (simp add: dark_def)
  have b: "\<forall>i < length (light_data data). dark data ! i \<longleftrightarrow> light_data data ! i < 45"
    by (simp add: dark_def dark_threshold_def)
  have c: "dark (data\<lparr>light_data := [10, 50, 80]\<rparr>) = [True, False, False]"
    by (simp add: dark_def dark_threshold_def)
  have d: "dark_points_x data
        = Inr (map fst (filter (\<lambda>(v, l). l < 45) (zip (x_data data) (light_data data))))
      \<and> dark_points_y data
        = Inr (map fst (filter (\<lambda>(v, l). l < 45) (zip (y_data data) (light_data data))))
      \<and> ((\<forall>l \<in> set (light_data data). \<not> l < 45) \<longrightarrow> highlight data = Inr None)"
    if len: "length (x_data data) = length (light_data data)
        \<and> length (y_data data) = length (light_data data)"
  proof -
    from len have lx: "length (x_data data) = length (light_data data)"
      and ly: "length (y_data data) = length (light_data data)" by simp_all
    have px: "dark_points_x data
        = Inr (map fst (filter (\<lambda>(v, l). l < 45) (zip (x_data data) (light_data data))))"
      using lx by (simp add: dark_points_x_def np_mask_def dark_def dark_threshold_def mask_filter)
    have py: "dark_points_y data
        = Inr (map fst (filter (\<lambda>(v, l). l < 45) (zip (y_data data) (light_data data))))"
      using ly by (simp add: dark_points_y_def np_mask_def dark_def dark_threshold_def mask_filter)
    have h: "highlight data = Inr None" if "\<forall>l \<in> set (light_data data). \<not> l < 45"
    proof -
      have "dark_points_x data = Inr []"
        using lx that
        by (simp add: dark_points_x_def np_mask_def dark_def dark_threshold_def mask_none)
      moreover have "dark_points_y data = Inr []"
        using ly that
        by (simp add: dark_points_y_def np_mask_def dark_def dark_threshold_def mask_none)
      ultimately show ?thesis by (simp add: highlight_def)
    qed
    from px py h show ?thesis by blast
  qed
  from a b c d show ?thesis by blast
qed

theorem dark_classification_witness:
  "dark light_samples = [True, False, False]
   \<and> dark_points_x light_samples = Inr [1] \<and> dark_points_y light_samples = Inr [4]
   \<and> highlight light_samples = Inr (Some [(1, 4)])
   \<and> highlight scenario = Inr None"
proof -
  have l: "length (x_data light_samples) = length (light_data light_samples)
        \<and> length (y_data light_samples) = length (light_data light_samples)"
    by (simp add: light_samples_def)
  have s: "length (x_data scenario) = length (light_data scenario)
        \<and> length (y_data scenario) = length (light_data scenario)"
    by (simp add: scenario_def)
  have n: "\<forall>l \<in> set (light_data scenario). \<not> l < 45"
    by (simp add: scenario_def)
  have x: "dark_points_x light_samples = Inr [1]"
    using dark_classification [of light_samples] l by (simp add: light_samples_def)
  have y: "dark_points_y light_samples = Inr [4]"
    using dark_classification [of light_samples] l by (simp add: light_samples_def)
  have d: "dark light_samples = [True, False, False]"
    by (simp add: dark_def dark_threshold_def light_samples_def)
  have h: "highlight light_samples = Inr (Some [(1, 4)])"
    by (simp add: highlight_def x y)
  have e: "highlight scenario = Inr None"
    using dark_classification [of scenario] s n by blast
  from d x y h e show ?thesis by simp
qed


subsection \<open>A file that does not exist\<close>

lemma parse_field_error:
  "parse_field conv row k = Inl e \<Longrightarrow> e = KeyError k \<or> e = TypeError \<or> e = ValueError"
  by (auto simp: parse_field_def split: option.splits)

lemma append_row_error:
  assumes "append_row py_float py_int row d = Inl e"
  shows "e \<noteq> FileNotFoundError"
  using assms
  by (auto simp: append_row_def bind_err_def Let_def split: sum.splits dest!: parse_field_error)

lemma read_rows_error:
  "read_rows py_float py_int fieldnames rows d = Inl e \<Longrightarrow> e \<noteq> FileNotFoundError"
proof (induction rows arbitrary: d)
  case Nil
  then show ?case by simp
next
  case (Cons row rows)
  show ?case
  proof (cases "row = []")
    case True
    with Cons show ?thesis by simp
  next
    case False
    show ?thesis
    proof (cases "append_row py_float py_int (dict_row fieldnames row) d")
      case (Inl e')
      with Cons.prems False have "e = e'" by simp
      with Inl show ?thesis by (simp add: append_row_error)
    next
      case (Inr d')
      with Cons.prems False have "read_rows py_float py_int fieldnames rows d' = Inl e" by simp
      then show ?thesis by (rule Cons.IH)
    qed
  qed
qed

lemma read_path_data_opened:
  assumes "open_file fs filename = Inr lines"
  shows "read_path_data py_float py_int fs filename \<noteq> Inl FileNotFoundError"
proof
  assume a: "read_path_data py_float py_int fs filename = Inl FileNotFoundError"
  show False
  proof (cases lines)
    case Nil
    with a assms show False by (simp add: read_path_data_def)
  next
    case (Cons fieldnames rest)
    with a assms
    have "read_rows py_float py_int fieldnames rest empty_series = Inl FileNotFoundError"
      by (simp add: read_path_data_def)
    from read_rows_error [OF this] show False by simp
  qed
qed

lemma open_file_not_found:
  assumes "CHR 0x00 \<notin> set filename" and "refused fs filename = None"
    and "\<not> list_ex (is_regular fs) (ancestors filename)" and "entries fs filename = None"
  shows "open_file fs filename = Inl FileNotFoundError"
  using assms by (simp add: open_file_def)

lemma main_not_found:
  assumes "read_path_data py_float py_int fs (default_filename answer) = Inl FileNotFoundError"
  shows "main py_float py_int fs (answer # stdin) =
     ([Rule, Title, Rule, Prompt_filename, Reading_file (default_filename answer),
       File_not_found (default_filename answer), Make_sure], Inr ())"
  using assms
  by (simp add: main_def main_try_def bind_io_def emit_def raising_def input_line_def Let_def)

lemma main_load_error:
  assumes "read_path_data py_float py_int fs (default_filename answer) = Inl e"
    and "e \<noteq> FileNotFoundError"
  shows "main py_float py_int fs (answer # stdin) =
     ([Rule, Title, Rule, Prompt_filename, Reading_file (default_filename answer),
       Error_occurred e], Inr ())"
  using assms
  by (cases e)
     (simp_all add: main_def main_try_def bind_io_def emit_def raising_def input_line_def Let_def)

lemma default_filename_examples:
  "default_filename ''  '' = ''path.txt''" "default_filename '' log.csv '' = ''log.csv''"
  "default_filename ''missing.csv'' = ''missing.csv''"
  "default_filename ''path.txt/x'' = ''path.txt/x''"
  by (simp_all add: default_filename_def strip_def is_space_def)

lemma open_below_file:
  "open_file (single_file ''path.txt'' lines) ''path.txt/x'' = Inl NotADirectoryError"
  by (simp add: open_file_def single_file_def ancestors_def is_regular_def)

text \<open>
  C9. A path that does not exist does not always surface as
  \<^verbatim>\<open>FileNotFoundError\<close>: \<^verbatim>\<open>path.txt/x\<close>, where \<^verbatim>\<open>path.txt\<close> is a regular file,
  names nothing, its load raises \<^verbatim>\<open>NotADirectoryError\<close>, and \<^verbatim>\<open>main\<close> prints it
  through the handler of the other failures.
\<close>

theorem not_found_counterexample:
  "entries (single_file ''path.txt'' [example_header]) ''path.txt/x'' = None
   \<and> read_path_data digits_float digits_int (single_file ''path.txt'' [example_header])
        ''path.txt/x'' = Inl NotADirectoryError
   \<and> main digits_float digits_int (single_file ''path.txt'' [example_header]) [''path.txt/x'']
       = ([Rule, Title, Rule, Prompt_filename, Reading_file ''path.txt/x'',
           Error_occurred NotADirectoryError], Inr ())"
proof -
  have a: "entries (single_file ''path.txt'' [example_header]) ''path.txt/x'' = None"
    by (simp add: single_file_def)
  have b: "read_path_data digits_float digits_int (single_file ''path.txt'' [example_header])
        ''path.txt/x'' = Inl NotADirectoryError"
    by (simp add: read_path_data_def open_below_file)
  have c: "main digits_float digits_int (single_file ''path.txt'' [example_header])
        [''path.txt/x'']
       = ([Rule, Title, Rule, Prompt_filename, Reading_file ''path.txt/x'',
           Error_occurred NotADirectoryError], Inr ())"
    using main_load_error [of digits_float digits_int
        "single_file ''path.txt'' [example_header]" "''path.txt/x''" NotADirectoryError "[]"] b
    by (simp add: default_filename_examples)
  from a b c show ?thesis by simp
qed

text \<open>
  C9, as the code has it. The load raises \<^verbatim>\<open>FileNotFoundError\<close> for a path that
  names nothing, has no regular file among its ancestors, holds no NUL character and
  is not refused by the operating system for a reason of its own; the load of a file
  that opens never raises it. For an ASCII answer at the prompt, when the load raises
  \<^verbatim>\<open>FileNotFoundError\<close>, \<^verbatim>\<open>main\<close> prints the two lines of its own handler and
  returns normally; when the load raises another exception, \<^verbatim>\<open>main\<close> prints that
  exception instead and returns normally.
\<close>

theorem not_found_distinguished:
  "(CHR 0x00 \<notin> set filename \<and> refused fs filename = None
      \<and> \<not> list_ex (is_regular fs) (ancestors filename) \<and> entries fs filename = None \<longrightarrow>
      read_path_data py_float py_int fs filename = Inl FileNotFoundError)
   \<and> (open_file fs filename = Inr lines \<longrightarrow>
      read_path_data py_float py_int fs filename \<noteq> Inl FileNotFoundError)
   \<and> (ascii answer
        \<and> read_path_data py_float py_int fs (default_filename answer) = Inl FileNotFoundError \<longrightarrow>
      main py_float py_int fs (answer # stdin) =
        ([Rule, Title, Rule, Prompt_filename, Reading_file (default_filename answer),
          File_not_found (default_filename answer), Make_sure], Inr ()))
   \<and> (ascii answer
        \<and> read_path_data py_float py_int fs (default_filename answer) = Inl e
        \<and> e \<noteq> FileNotFoundError \<longrightarrow>
      main py_float py_int fs (answer # stdin) =
        ([Rule, Title, Rule, Prompt_filename, Reading_file (default_filename answer),
          Error_occurred e], Inr ()))"
proof -
  have a: "read_path_data py_float py_int fs filename = Inl FileNotFoundError"
    if "CHR 0x00 \<notin> set filename \<and> refused fs filename = None
      \<and> \<not> list_ex (is_regular fs) (ancestors filename) \<and> entries fs filename = None"
    using that by (simp add: read_path_data_def open_file_not_found)
  have b: "read_path_data py_float py_int fs filename \<noteq> Inl FileNotFoundError"
    if "open_file fs filename = Inr lines"
    using that by (rule read_path_data_opened)
  have c: "main py_float py_int fs (answer # stdin) =
        ([Rule, Title, Rule, Prompt_filename, Reading_file (default_filename answer),
          File_not_found (default_filename answer), Make_sure], Inr ())"
    if "ascii answer
        \<and> read_path_data py_float py_int fs (default_filename answer) = Inl FileNotFoundError"
    using that by (simp add: main_not_found)
  have d: "main py_float py_int fs (answer # stdin) =
        ([Rule, Title, Rule, Prompt_filename, Reading_file (default_filename answer),
          Error_occurred e], Inr ())"
    if "ascii answer
        \<and> read_path_data py_float py_int fs (default_filename answer) = Inl e
        \<and> e \<noteq> FileNotFoundError"
    using that by (simp add: main_load_error)
  from a b c d show ?thesis by blast
qed

theorem not_found_distinguished_witness:
  "read_path_data digits_float digits_int
      (single_file ''log.csv'' [[''Time'', ''X''], [''0'', ''1'']]) ''missing.csv''
     = Inl FileNotFoundError
   \<and> main digits_float digits_int (single_file ''log.csv'' [[''Time'', ''X''], [''0'', ''1'']])
       [''  '']
     = ([Rule, Title, Rule, Prompt_filename, Reading_file ''path.txt'',
         File_not_found ''path.txt'', Make_sure], Inr ())
   \<and> main digits_float digits_int (single_file ''log.csv'' [[''Time'', ''X''], [''0'', ''1'']])
       ['' log.csv '']
     = ([Rule, Title, Rule, Prompt_filename, Reading_file ''log.csv'',
         Error_occurred (KeyError ''Y'')], Inr ())"
proof -
  let ?fs = "single_file ''log.csv'' [[''Time'', ''X''], [''0'', ''1'']]"
  have m: "CHR 0x00 \<notin> set ''missing.csv'' \<and> refused ?fs ''missing.csv'' = None
      \<and> \<not> list_ex (is_regular ?fs) (ancestors ''missing.csv'')
      \<and> entries ?fs ''missing.csv'' = None"
    by (simp add: single_file_def ancestors_def)
  have p: "CHR 0x00 \<notin> set ''path.txt'' \<and> refused ?fs ''path.txt'' = None
      \<and> \<not> list_ex (is_regular ?fs) (ancestors ''path.txt'')
      \<and> entries ?fs ''path.txt'' = None"
    by (simp add: single_file_def ancestors_def)
  have asc: "ascii ''  ''" "ascii '' log.csv ''"
    by (simp_all add: ascii_def)
  have 0: "read_path_data digits_float digits_int ?fs ''missing.csv'' = Inl FileNotFoundError"
    using not_found_distinguished [where fs = "?fs" and filename = "''missing.csv''"
      and py_float = digits_float and py_int = digits_int] m
    by blast
  have n: "read_path_data digits_float digits_int ?fs (default_filename ''  '')
      = Inl FileNotFoundError"
    using not_found_distinguished [where fs = "?fs" and filename = "''path.txt''"
      and py_float = digits_float and py_int = digits_int] p
    by (simp add: default_filename_examples)
  have c: "read_path_data digits_float digits_int ?fs (default_filename '' log.csv '')
      = Inl (KeyError ''Y'')"
    by (simp add: default_filename_examples read_path_data_def open_single_file append_row_def
        parse_field_def dict_row_def empty_series_def digits_float_def digit_value_def)
  from not_found_distinguished [where fs = "?fs" and answer = "''  ''" and stdin = "[]"
      and py_float = digits_float and py_int = digits_int] asc(1) n
  have 1: "main digits_float digits_int ?fs [''  '']
     = ([Rule, Title, Rule, Prompt_filename, Reading_file ''path.txt'',
         File_not_found ''path.txt'', Make_sure], Inr ())"
    by (simp add: default_filename_examples)
  from not_found_distinguished [where fs = "?fs" and answer = "'' log.csv ''" and stdin = "[]"
      and py_float = digits_float and py_int = digits_int and e = "KeyError ''Y''"] asc(2) c
  have 2: "main digits_float digits_int ?fs ['' log.csv '']
     = ([Rule, Title, Rule, Prompt_filename, Reading_file ''log.csv'',
         Error_occurred (KeyError ''Y'')], Inr ())"
    by (simp add: default_filename_examples)
  from 0 1 2 show ?thesis by simp
qed

subsection \<open>The path length of the reversed series\<close>















end
